theory Spec2Isabelle
  imports Main "HOL-Library.Word"
begin

unbundle bit_operations_syntax

section \<open>The USB descriptors the script reads\<close>

text \<open>
  \<^verbatim>\<open>rumble-test.py\<close> is a straight-line script over the PyUSB library. It reads three kinds
  of descriptor objects: the device (\<^verbatim>\<open>idVendor\<close>, \<^verbatim>\<open>idProduct\<close>), the interfaces of the
  active configuration (\<^verbatim>\<open>bInterfaceNumber\<close>) and their endpoints (\<^verbatim>\<open>bEndpointAddress\<close>,
  \<^verbatim>\<open>bmAttributes\<close>). The descriptor fields are one byte wide (two bytes for the
  identifiers of the device), so they are words here.

  Iterating a configuration yields its interfaces, iterating an interface yields its
  endpoints: both are lists, in the order the iteration yields them.
\<close>

record endpoint =
  bEndpointAddress :: "8 word"
  bmAttributes :: "8 word"

record interface =
  bInterfaceNumber :: "8 word"
  endpoints :: "endpoint list"

type_synonym configuration = "interface list"

text \<open>
  \<open>configuration\<close> is the configuration that \<^verbatim>\<open>dev.set_configuration()\<close> activates and
  \<^verbatim>\<open>dev.get_active_configuration()\<close> then returns.
\<close>

record device =
  idVendor :: "16 word"
  idProduct :: "16 word"
  configuration :: configuration

section \<open>The library functions the script calls\<close>

text \<open>
  The constants and the two decoders of \<^verbatim>\<open>usb.util\<close>:
  \<^verbatim>\<open>endpoint_direction(address) = address & 0x80\<close> with \<^verbatim>\<open>ENDPOINT_OUT = 0x00\<close>, and
  \<^verbatim>\<open>endpoint_type(bmAttributes) = bmAttributes & 0x03\<close> with \<^verbatim>\<open>ENDPOINT_TYPE_INTR = 0x03\<close>.
\<close>

definition ENDPOINT_IN :: "8 word" where
  "ENDPOINT_IN = 0x80"

definition ENDPOINT_OUT :: "8 word" where
  "ENDPOINT_OUT = 0x00"

definition ENDPOINT_TYPE_CTRL :: "8 word" where
  "ENDPOINT_TYPE_CTRL = 0x00"

definition ENDPOINT_TYPE_ISO :: "8 word" where
  "ENDPOINT_TYPE_ISO = 0x01"

definition ENDPOINT_TYPE_BULK :: "8 word" where
  "ENDPOINT_TYPE_BULK = 0x02"

definition ENDPOINT_TYPE_INTR :: "8 word" where
  "ENDPOINT_TYPE_INTR = 0x03"

definition endpoint_direction :: "8 word \<Rightarrow> 8 word" where
  "endpoint_direction address = address AND 0x80"

definition endpoint_type :: "8 word \<Rightarrow> 8 word" where
  "endpoint_type attributes = attributes AND 0x03"

text \<open>
  \<^verbatim>\<open>usb.core.find(idVendor=..., idProduct=...)\<close> returns the first attached device whose
  descriptor has both fields equal to the arguments, and \<^verbatim>\<open>None\<close> when there is none.
\<close>

fun usb_core_find :: "device list \<Rightarrow> 16 word \<Rightarrow> 16 word \<Rightarrow> device option" where
  "usb_core_find [] vid pid = None"
| "usb_core_find (d # ds) vid pid =
     (if idVendor d = vid \<and> idProduct d = pid then Some d else usb_core_find ds vid pid)"

section \<open>The script\<close>

definition VID :: "16 word" where
  "VID = 0x045e"

definition PID :: "16 word" where
  "PID = 0x0719"

subsection \<open>The endpoint scan (lines 18 to 27)\<close>

text \<open>
  The two variables \<^verbatim>\<open>ep_out\<close> and \<^verbatim>\<open>intf\<close> start as \<^verbatim>\<open>None\<close> and are assigned together.
  The state of the two nested loops is this pair.
\<close>

type_synonym selection = "endpoint option \<times> interface option"

text \<open>
  The inner loop \<^verbatim>\<open>for ep in interface\<close>: the two nested tests, the joint assignment, and
  the \<^verbatim>\<open>break\<close>, which leaves this loop only.
\<close>

fun inner_loop :: "interface \<Rightarrow> endpoint list \<Rightarrow> selection \<Rightarrow> selection" where
  "inner_loop interface [] sel = sel"
| "inner_loop interface (ep # eps) sel =
     (if endpoint_direction (bEndpointAddress ep) = ENDPOINT_OUT then
        (if endpoint_type (bmAttributes ep) = ENDPOINT_TYPE_INTR then
           (Some ep, Some interface)
         else inner_loop interface eps sel)
      else inner_loop interface eps sel)"

text \<open>
  The outer loop \<^verbatim>\<open>for interface in cfg\<close>: it has no \<^verbatim>\<open>break\<close> of its own, so it runs the
  inner loop on every interface, each starting from what the previous ones left.
\<close>

fun outer_loop :: "configuration \<Rightarrow> selection \<Rightarrow> selection" where
  "outer_loop [] sel = sel"
| "outer_loop (interface # rest) sel =
     outer_loop rest (inner_loop interface (endpoints interface) sel)"

definition resolve_endpoint :: "configuration \<Rightarrow> selection" where
  "resolve_endpoint cfg = outer_loop cfg (None, None)"

subsection \<open>The whole run\<close>

text \<open>
  What the script does to the outside world is the sequence of library calls it makes.
  \<open>ReleaseInterface\<close> and \<open>DisposeResources\<close> are the calls of \<^verbatim>\<open>usb.util\<close> that give a
  claimed interface back.
\<close>

datatype event =
    Find "16 word" "16 word"
  | SetConfiguration
  | GetActiveConfiguration
  | ClaimInterface "8 word"
  | ReleaseInterface "8 word"
  | DisposeResources
  | Write "8 word" "int list"
  | Sleep nat
  | Print string

text \<open>
  A run ends with an uncaught exception or by falling off the end of the script. The
  script raises \<^verbatim>\<open>Exception\<close> with a message itself; \<open>USBError\<close> is the exception a device
  operation of the library raises, whichever class the library gives it; \<open>AttributeError\<close> is what \<^verbatim>\<open>intf.bInterfaceNumber\<close>
  raises when \<^verbatim>\<open>intf\<close> is \<^verbatim>\<open>None\<close>.
\<close>

datatype error = Exception string | USBError | AttributeError

datatype outcome = Raised error | Completed

text \<open>
  The USB stack the script runs against: the devices attached, and which device
  operation fails. \<open>fault w calls e\<close> says that, after the calls \<open>calls\<close>, the device
  operation \<open>e\<close> raises. It is asked for the operations that talk to the device:
  \<^verbatim>\<open>set_configuration\<close>, \<^verbatim>\<open>claim_interface\<close> and \<^verbatim>\<open>write\<close>.
\<close>

record usb_stack =
  attached :: "device list"
  fault :: "event list \<Rightarrow> event \<Rightarrow> bool"

definition activation :: "int list" where
  "activation = [0x00, 0x08, 0xFF, 0xFF, 0, 0, 0, 0]"

definition deactivation :: "int list" where
  "deactivation = [0x00, 0x08, 0x00, 0x00, 0, 0, 0, 0]"

text \<open>
  The script from the claim of the interface on (lines 32 to 46), given the calls made
  so far, the interface number and the endpoint address.
\<close>

definition transmit :: "usb_stack \<Rightarrow> event list \<Rightarrow> 8 word \<Rightarrow> 8 word \<Rightarrow> event list \<times> outcome" where
  "transmit w t0 number address =
     (let claim = ClaimInterface number; t1 = t0 @ [claim] in
      if fault w t0 claim then (t1, Raised USBError)
      else
        let write1 = Write address activation; t2 = t1 @ [write1] in
        if fault w t1 write1 then (t2, Raised USBError)
        else
          let t3 = t2 @ [Sleep 2];
              write2 = Write address deactivation; t4 = t3 @ [write2] in
          if fault w t3 write2 then (t4, Raised USBError)
          else (t4 @ [Print ''Done''], Completed))"

text \<open>The script from its first line, on a given USB stack: the calls made and how it ends.\<close>

definition main :: "usb_stack \<Rightarrow> event list \<times> outcome" where
  "main w =
     (let t1 = [Find VID PID] in
      case usb_core_find (attached w) VID PID of
        None \<Rightarrow> (t1, Raised (Exception ''Receiver not found''))
      | Some dev \<Rightarrow>
          let t2 = t1 @ [SetConfiguration] in
          if fault w t1 SetConfiguration then (t2, Raised USBError)
          else
            let t3 = t2 @ [GetActiveConfiguration];
                cfg = configuration dev in
            (case resolve_endpoint cfg of
               (None, _) \<Rightarrow> (t3, Raised (Exception ''Interrupt OUT endpoint not found''))
             | (Some ep_out, None) \<Rightarrow> (t3, Raised AttributeError)
             | (Some ep_out, Some intf) \<Rightarrow>
                 transmit w t3 (bInterfaceNumber intf) (bEndpointAddress ep_out)))"

definition calls :: "usb_stack \<Rightarrow> event list" where
  "calls w = fst (main w)"

definition result :: "usb_stack \<Rightarrow> outcome" where
  "result w = snd (main w)"

subsection \<open>The end of the process\<close>




section \<open>The vocabulary of the properties\<close>

text \<open>An endpoint qualifies when its direction is OUT and its transfer type is interrupt.\<close>

definition interrupt_out :: "endpoint \<Rightarrow> bool" where
  "interrupt_out ep =
     (endpoint_direction (bEndpointAddress ep) = ENDPOINT_OUT \<and>
      endpoint_type (bmAttributes ep) = ENDPOINT_TYPE_INTR)"

definition has_interrupt_out :: "interface \<Rightarrow> bool" where
  "has_interrupt_out i = (List.find interrupt_out (endpoints i) \<noteq> None)"

text \<open>
  The resolver as the specification words it: every endpoint with its owning interface,
  interfaces in configuration order and endpoints in descriptor order within each, and
  the first qualifying one of that enumeration.
\<close>

definition enumeration :: "configuration \<Rightarrow> (endpoint \<times> interface) list" where
  "enumeration cfg = concat (map (\<lambda>i. map (\<lambda>ep. (ep, i)) (endpoints i)) cfg)"

definition first_match :: "configuration \<Rightarrow> selection" where
  "first_match cfg =
     (case List.find (\<lambda>(ep, i). interrupt_out ep) (enumeration cfg) of
        None \<Rightarrow> (None, None)
      | Some (ep, i) \<Rightarrow> (Some ep, Some i))"

text \<open>
  The two loop variables are paired when both are unset, or both are set and the
  endpoint is one of the interface's.
\<close>

fun paired :: "selection \<Rightarrow> bool" where
  "paired (None, None) = True"
| "paired (Some ep, Some i) = (ep \<in> set (endpoints i))"
| "paired (None, Some i) = False"
| "paired (Some ep, None) = False"

text \<open>The transfers among the calls of a run, in order: endpoint address and buffer.\<close>

definition transfers :: "event list \<Rightarrow> (8 word \<times> int list) list" where
  "transfers t = concat (map (\<lambda>e. case e of Write a d \<Rightarrow> [(a, d)] | _ \<Rightarrow> []) t)"


section \<open>Simulated devices\<close>

definition ep_intr_in :: endpoint where
  "ep_intr_in = \<lparr>bEndpointAddress = 0x81, bmAttributes = 0x03\<rparr>"

definition ep_intr_out :: endpoint where
  "ep_intr_out = \<lparr>bEndpointAddress = 0x01, bmAttributes = 0x03\<rparr>"

definition ep_intr_out2 :: endpoint where
  "ep_intr_out2 = \<lparr>bEndpointAddress = 0x02, bmAttributes = 0x03\<rparr>"

definition ep_bulk_out :: endpoint where
  "ep_bulk_out = \<lparr>bEndpointAddress = 0x02, bmAttributes = 0x02\<rparr>"

definition ep_ctrl :: endpoint where
  "ep_ctrl = \<lparr>bEndpointAddress = 0x00, bmAttributes = 0x00\<rparr>"

text \<open>One interface with an interrupt-IN and an interrupt-OUT endpoint.\<close>

definition cfg_in_out :: configuration where
  "cfg_in_out = [\<lparr>bInterfaceNumber = 0, endpoints = [ep_intr_in, ep_intr_out]\<rparr>]"

text \<open>One interface with a bulk-OUT and a control endpoint only.\<close>

definition cfg_bulk_ctrl :: configuration where
  "cfg_bulk_ctrl = [\<lparr>bInterfaceNumber = 0, endpoints = [ep_bulk_out, ep_ctrl]\<rparr>]"

text \<open>Two interfaces, each with an interrupt-OUT endpoint of its own.\<close>

definition cfg_two_interfaces :: configuration where
  "cfg_two_interfaces =
     [\<lparr>bInterfaceNumber = 0, endpoints = [ep_intr_in, ep_intr_out]\<rparr>,
      \<lparr>bInterfaceNumber = 1, endpoints = [ep_intr_out2]\<rparr>]"

definition receiver :: "configuration \<Rightarrow> device" where
  "receiver cfg = \<lparr>idVendor = 0x045e, idProduct = 0x0719, configuration = cfg\<rparr>"

definition keyboard :: device where
  "keyboard = \<lparr>idVendor = 0x046d, idProduct = 0xc31c, configuration = cfg_in_out\<rparr>"

text \<open>A stack on which no device operation fails, and one on which every transfer fails.\<close>

definition healthy :: "device list \<Rightarrow> usb_stack" where
  "healthy ds = \<lparr>attached = ds, fault = (\<lambda>t e. False)\<rparr>"

definition unplugged :: "device list \<Rightarrow> usb_stack" where
  "unplugged ds =
     \<lparr>attached = ds, fault = (\<lambda>t e. case e of Write a d \<Rightarrow> True | _ \<Rightarrow> False)\<rparr>"

section \<open>The scan\<close>

lemma inner_loop_find:
  "inner_loop i eps sel =
     (case List.find interrupt_out eps of None \<Rightarrow> sel | Some ep \<Rightarrow> (Some ep, Some i))"
  by (induction eps) (simp_all add: interrupt_out_def)

lemma inner_loop_has:
  "inner_loop i (endpoints i) sel =
     (if has_interrupt_out i then (List.find interrupt_out (endpoints i), Some i) else sel)"
  by (auto simp: inner_loop_find has_interrupt_out_def)

lemma outer_loop_last:
  "outer_loop cfg sel =
     (case rev (filter has_interrupt_out cfg) of
        [] \<Rightarrow> sel
      | i # _ \<Rightarrow> (List.find interrupt_out (endpoints i), Some i))"
proof (induction cfg arbitrary: sel)
  case Nil
  show ?case by simp
next
  case (Cons i rest)
  show ?case
    by (cases "rev (filter has_interrupt_out rest)")
      (simp_all add: Cons.IH inner_loop_has)
qed

lemma find_interrupt_out:
  "List.find interrupt_out eps = Some ep \<Longrightarrow> ep \<in> set eps \<and> interrupt_out ep"
  by (induction eps) (auto split: if_splits)

lemma has_interrupt_out_iff:
  "has_interrupt_out i \<longleftrightarrow> (\<exists>ep \<in> set (endpoints i). interrupt_out ep)"
  by (auto simp: has_interrupt_out_def find_None_iff)

lemma inner_loop_paired:
  "paired sel \<Longrightarrow> paired (inner_loop i (endpoints i) sel)"
  by (auto simp: inner_loop_find split: option.splits dest: find_interrupt_out)

lemma outer_loop_paired:
  "paired sel \<Longrightarrow> paired (outer_loop cfg sel)"
  by (induction cfg arbitrary: sel) (simp_all add: inner_loop_paired)

lemma inner_loop_from:
  "inner_loop i (endpoints i) sel = sel \<or>
   (\<exists>ep \<in> set (endpoints i). interrupt_out ep \<and> inner_loop i (endpoints i) sel = (Some ep, Some i))"
  by (auto simp: inner_loop_find split: option.splits dest: find_interrupt_out)

lemma outer_loop_from:
  "outer_loop cfg sel = sel \<or>
   (\<exists>i \<in> set cfg. \<exists>ep \<in> set (endpoints i). interrupt_out ep \<and>
      outer_loop cfg sel = (Some ep, Some i))"
proof (induction cfg arbitrary: sel)
  case Nil
  show ?case by simp
next
  case (Cons i rest)
  from Cons.IH [of "inner_loop i (endpoints i) sel"] inner_loop_from [of i sel]
  show ?case by auto
qed

lemma resolve_endpoint_cases:
  "resolve_endpoint cfg = (None, None) \<or>
   (\<exists>i \<in> set cfg. \<exists>ep \<in> set (endpoints i). interrupt_out ep \<and>
      resolve_endpoint cfg = (Some ep, Some i))"
  using outer_loop_from [of cfg "(None, None)"] by (simp add: resolve_endpoint_def)

lemma resolve_endpoint_None_iff:
  "fst (resolve_endpoint cfg) = None \<longleftrightarrow>
     (\<forall>i \<in> set cfg. \<forall>ep \<in> set (endpoints i). \<not> interrupt_out ep)"
proof (cases "rev (filter has_interrupt_out cfg)")
  case Nil
  then have "filter has_interrupt_out cfg = []" by simp
  then have "\<forall>i \<in> set cfg. \<not> has_interrupt_out i"
    by (simp add: filter_empty_conv)
  with Nil show ?thesis
    by (simp add: resolve_endpoint_def outer_loop_last has_interrupt_out_iff)
next
  case (Cons i rest)
  then have "i \<in> set (rev (filter has_interrupt_out cfg))" by simp
  then have i: "i \<in> set cfg" "has_interrupt_out i" by simp_all
  from i(2) have "fst (resolve_endpoint cfg) \<noteq> None"
    by (simp add: resolve_endpoint_def outer_loop_last Cons has_interrupt_out_def)
  moreover from i have "\<exists>i \<in> set cfg. \<exists>ep \<in> set (endpoints i). interrupt_out ep"
    by (auto simp: has_interrupt_out_iff)
  ultimately show ?thesis by blast
qed

lemma usb_core_find_None_iff:
  "usb_core_find ds vid pid = None \<longleftrightarrow> \<not> (\<exists>d \<in> set ds. idVendor d = vid \<and> idProduct d = pid)"
  by (induction ds) auto

lemma usb_core_find_Some:
  "usb_core_find ds vid pid = Some d \<Longrightarrow> d \<in> set ds \<and> idVendor d = vid \<and> idProduct d = pid"
  by (induction ds) (auto split: if_splits)

lemma transmit_cases:
  "transmit w t n a = (t @ [ClaimInterface n], Raised USBError) \<or>
   transmit w t n a = (t @ [ClaimInterface n, Write a activation], Raised USBError) \<or>
   transmit w t n a =
     (t @ [ClaimInterface n, Write a activation, Sleep 2, Write a deactivation], Raised USBError) \<or>
   transmit w t n a =
     (t @ [ClaimInterface n, Write a activation, Sleep 2, Write a deactivation, Print ''Done''],
      Completed)"
  by (simp add: transmit_def Let_def)

lemma main_not_found:
  "usb_core_find (attached w) VID PID = None \<Longrightarrow>
   main w = ([Find VID PID], Raised (Exception ''Receiver not found''))"
  by (simp add: main_def)

lemma main_set_configuration_fault:
  "usb_core_find (attached w) VID PID = Some dev \<Longrightarrow> fault w [Find VID PID] SetConfiguration \<Longrightarrow>
   main w = ([Find VID PID, SetConfiguration], Raised USBError)"
  by (simp add: main_def)

lemma main_endpoint_not_found:
  "usb_core_find (attached w) VID PID = Some dev \<Longrightarrow>
   \<not> fault w [Find VID PID] SetConfiguration \<Longrightarrow>
   resolve_endpoint (configuration dev) = (None, None) \<Longrightarrow>
   main w = ([Find VID PID, SetConfiguration, GetActiveConfiguration],
     Raised (Exception ''Interrupt OUT endpoint not found''))"
  by (simp add: main_def)

lemma main_transmit:
  "usb_core_find (attached w) VID PID = Some dev \<Longrightarrow>
   \<not> fault w [Find VID PID] SetConfiguration \<Longrightarrow>
   resolve_endpoint (configuration dev) = (Some ep, Some i) \<Longrightarrow>
   main w =
     transmit w [Find VID PID, SetConfiguration, GetActiveConfiguration]
       (bInterfaceNumber i) (bEndpointAddress ep)"
  by (simp add: main_def)

section \<open>The paths of a run\<close>

lemmas script_defs =
  main_def transmit_def resolve_endpoint_def calls_def result_def VID_def PID_def
  endpoint_direction_def endpoint_type_def ENDPOINT_OUT_def ENDPOINT_IN_def ENDPOINT_TYPE_INTR_def
  activation_def deactivation_def

lemmas sim_defs =
  ep_intr_in_def ep_intr_out_def ep_intr_out2_def ep_bulk_out_def ep_ctrl_def
  cfg_in_out_def cfg_bulk_ctrl_def cfg_two_interfaces_def receiver_def keyboard_def
  healthy_def unplugged_def

lemma main_cases:
  "usb_core_find (attached w) VID PID = None \<and>
     main w = ([Find VID PID], Raised (Exception ''Receiver not found'')) \<or>
   usb_core_find (attached w) VID PID \<noteq> None \<and>
     main w = ([Find VID PID, SetConfiguration], Raised USBError) \<or>
   (\<exists>dev. usb_core_find (attached w) VID PID = Some dev \<and>
      resolve_endpoint (configuration dev) = (None, None)) \<and>
     main w = ([Find VID PID, SetConfiguration, GetActiveConfiguration],
       Raised (Exception ''Interrupt OUT endpoint not found'')) \<or>
   (\<exists>dev i ep. usb_core_find (attached w) VID PID = Some dev \<and>
      \<not> fault w [Find VID PID] SetConfiguration \<and>
      i \<in> set (configuration dev) \<and> ep \<in> set (endpoints i) \<and> interrupt_out ep \<and>
      resolve_endpoint (configuration dev) = (Some ep, Some i) \<and>
      main w =
        transmit w [Find VID PID, SetConfiguration, GetActiveConfiguration]
          (bInterfaceNumber i) (bEndpointAddress ep))"
proof (cases "usb_core_find (attached w) VID PID")
  case None
  then show ?thesis by (simp add: main_not_found)
next
  case (Some dev)
  show ?thesis
  proof (cases "fault w [Find VID PID] SetConfiguration")
    case True
    with Some show ?thesis by (simp add: main_set_configuration_fault)
  next
    case False
    from resolve_endpoint_cases [of "configuration dev"] show ?thesis
    proof
      assume "resolve_endpoint (configuration dev) = (None, None)"
      with Some False show ?thesis by (simp add: main_endpoint_not_found)
    next
      assume "\<exists>i \<in> set (configuration dev). \<exists>ep \<in> set (endpoints i).
        interrupt_out ep \<and> resolve_endpoint (configuration dev) = (Some ep, Some i)"
      then obtain i ep where
        "i \<in> set (configuration dev)" "ep \<in> set (endpoints i)" "interrupt_out ep"
        "resolve_endpoint (configuration dev) = (Some ep, Some i)"
        by blast
      with Some False main_transmit [of w dev ep i] show ?thesis by blast
    qed
  qed
qed

lemma main_paths:
  "usb_core_find (attached w) VID PID = None \<and>
     main w = ([Find VID PID], Raised (Exception ''Receiver not found'')) \<or>
   usb_core_find (attached w) VID PID \<noteq> None \<and>
     main w = ([Find VID PID, SetConfiguration], Raised USBError) \<or>
   (\<exists>dev. usb_core_find (attached w) VID PID = Some dev \<and>
      resolve_endpoint (configuration dev) = (None, None)) \<and>
     main w = ([Find VID PID, SetConfiguration, GetActiveConfiguration],
       Raised (Exception ''Interrupt OUT endpoint not found'')) \<or>
   (\<exists>dev i ep. usb_core_find (attached w) VID PID = Some dev \<and>
      i \<in> set (configuration dev) \<and> ep \<in> set (endpoints i) \<and> interrupt_out ep \<and>
      resolve_endpoint (configuration dev) = (Some ep, Some i) \<and>
      (main w =
         ([Find VID PID, SetConfiguration, GetActiveConfiguration,
           ClaimInterface (bInterfaceNumber i)], Raised USBError) \<or>
       main w =
         ([Find VID PID, SetConfiguration, GetActiveConfiguration,
           ClaimInterface (bInterfaceNumber i),
           Write (bEndpointAddress ep) activation], Raised USBError) \<or>
       main w =
         ([Find VID PID, SetConfiguration, GetActiveConfiguration,
           ClaimInterface (bInterfaceNumber i),
           Write (bEndpointAddress ep) activation, Sleep 2,
           Write (bEndpointAddress ep) deactivation], Raised USBError) \<or>
       main w =
         ([Find VID PID, SetConfiguration, GetActiveConfiguration,
           ClaimInterface (bInterfaceNumber i),
           Write (bEndpointAddress ep) activation, Sleep 2,
           Write (bEndpointAddress ep) deactivation, Print ''Done''], Completed)))"
proof -
  from main_cases [of w] consider
    "usb_core_find (attached w) VID PID = None"
    "main w = ([Find VID PID], Raised (Exception ''Receiver not found''))"
  | "usb_core_find (attached w) VID PID \<noteq> None"
    "main w = ([Find VID PID, SetConfiguration], Raised USBError)"
  | "\<exists>dev. usb_core_find (attached w) VID PID = Some dev \<and>
      resolve_endpoint (configuration dev) = (None, None)"
    "main w = ([Find VID PID, SetConfiguration, GetActiveConfiguration],
       Raised (Exception ''Interrupt OUT endpoint not found''))"
  | dev i ep where "usb_core_find (attached w) VID PID = Some dev"
      "i \<in> set (configuration dev)" "ep \<in> set (endpoints i)" "interrupt_out ep"
      "resolve_endpoint (configuration dev) = (Some ep, Some i)"
      "main w =
        transmit w [Find VID PID, SetConfiguration, GetActiveConfiguration]
          (bInterfaceNumber i) (bEndpointAddress ep)"
    by (elim disjE conjE exE) blast+
  then show ?thesis
  proof cases
    case 4
    from transmit_cases [of w "[Find VID PID, SetConfiguration, GetActiveConfiguration]"
        "bInterfaceNumber i" "bEndpointAddress ep"] 4(6)
    have "main w =
         ([Find VID PID, SetConfiguration, GetActiveConfiguration,
           ClaimInterface (bInterfaceNumber i)], Raised USBError) \<or>
       main w =
         ([Find VID PID, SetConfiguration, GetActiveConfiguration,
           ClaimInterface (bInterfaceNumber i),
           Write (bEndpointAddress ep) activation], Raised USBError) \<or>
       main w =
         ([Find VID PID, SetConfiguration, GetActiveConfiguration,
           ClaimInterface (bInterfaceNumber i),
           Write (bEndpointAddress ep) activation, Sleep 2,
           Write (bEndpointAddress ep) deactivation], Raised USBError) \<or>
       main w =
         ([Find VID PID, SetConfiguration, GetActiveConfiguration,
           ClaimInterface (bInterfaceNumber i),
           Write (bEndpointAddress ep) activation, Sleep 2,
           Write (bEndpointAddress ep) deactivation, Print ''Done''], Completed)"
      by simp
    with 4(1-5) show ?thesis by blast
  qed simp_all
qed

lemma transmit_outcome:
  "snd (transmit w t n a) = Raised USBError \<or> snd (transmit w t n a) = Completed"
  using transmit_cases [of w t n a] by auto

lemma result_endpoint_not_found_iff:
  "result w = Raised (Exception ''Interrupt OUT endpoint not found'') \<longleftrightarrow>
     (\<exists>dev. usb_core_find (attached w) VID PID = Some dev \<and>
        \<not> fault w [Find VID PID] SetConfiguration \<and>
        (\<forall>i \<in> set (configuration dev). \<forall>ep \<in> set (endpoints i). \<not> interrupt_out ep))"
proof (cases "usb_core_find (attached w) VID PID")
  case None
  then show ?thesis by (simp add: result_def main_not_found)
next
  case (Some dev)
  show ?thesis
  proof (cases "fault w [Find VID PID] SetConfiguration")
    case True
    with Some show ?thesis by (simp add: result_def main_set_configuration_fault)
  next
    case False
    from resolve_endpoint_cases [of "configuration dev"] show ?thesis
    proof
      assume none: "resolve_endpoint (configuration dev) = (None, None)"
      then have "fst (resolve_endpoint (configuration dev)) = None" by simp
      then have "\<forall>i \<in> set (configuration dev). \<forall>ep \<in> set (endpoints i). \<not> interrupt_out ep"
        by (simp only: resolve_endpoint_None_iff)
      with Some False none show ?thesis by (simp add: result_def main_endpoint_not_found)
    next
      assume "\<exists>i \<in> set (configuration dev). \<exists>ep \<in> set (endpoints i).
        interrupt_out ep \<and> resolve_endpoint (configuration dev) = (Some ep, Some i)"
      then obtain i ep where sel:
        "i \<in> set (configuration dev)" "ep \<in> set (endpoints i)" "interrupt_out ep"
        "resolve_endpoint (configuration dev) = (Some ep, Some i)"
        by blast
      from Some False sel(4) have "result w \<noteq> Raised (Exception ''Interrupt OUT endpoint not found'')"
        using transmit_outcome [of w "[Find VID PID, SetConfiguration, GetActiveConfiguration]"
            "bInterfaceNumber i" "bEndpointAddress ep"]
        by (auto simp: result_def main_transmit)
      with Some sel show ?thesis by auto
    qed
  qed
qed

lemma result_receiver_not_found_iff:
  "result w = Raised (Exception ''Receiver not found'') \<longleftrightarrow>
     usb_core_find (attached w) VID PID = None"
proof (cases "usb_core_find (attached w) VID PID")
  case None
  then show ?thesis by (simp add: result_def main_not_found)
next
  case (Some dev)
  with main_paths [of w] show ?thesis
    by (auto simp: result_def)
qed




section \<open>The claims\<close>

subsection \<open>C1: the first qualifying endpoint in enumeration order\<close>

text \<open>
  C1 says that the scan returns the first qualifying endpoint met when the interfaces are
  walked in configuration order and the endpoints of each in descriptor order, so that of
  two qualifying endpoints on different interfaces the one on the earlier interface is
  selected. The \<^verbatim>\<open>break\<close> of the script stops the walk of one interface only. On the
  simulated device with two interfaces, each with an interrupt-OUT endpoint, the script
  selects the endpoint of interface 1, and the first match of the enumeration is the
  endpoint of interface 0.
\<close>

theorem two_interfaces_select_the_later:
  "resolve_endpoint cfg_two_interfaces =
     (Some ep_intr_out2, Some \<lparr>bInterfaceNumber = 1, endpoints = [ep_intr_out2]\<rparr>) \<and>
   first_match cfg_two_interfaces =
     (Some ep_intr_out, Some \<lparr>bInterfaceNumber = 0, endpoints = [ep_intr_in, ep_intr_out]\<rparr>) \<and>
   resolve_endpoint cfg_two_interfaces \<noteq> first_match cfg_two_interfaces"
  by (simp add: script_defs sim_defs first_match_def enumeration_def interrupt_out_def)

subsection \<open>C2: the selected endpoint is interrupt-OUT\<close>

text \<open>
  C2: whenever the scan selects an endpoint, that endpoint has direction OUT and transfer
  type interrupt; it is never an IN endpoint. And whenever some endpoint of the
  configuration has direction OUT and transfer type interrupt, the scan does select an
  endpoint, whatever IN endpoints stand beside it.
\<close>

theorem resolved_endpoint_is_interrupt_out:
  "(fst (resolve_endpoint cfg) = Some ep \<longrightarrow>
      endpoint_direction (bEndpointAddress ep) = ENDPOINT_OUT \<and>
      endpoint_type (bmAttributes ep) = ENDPOINT_TYPE_INTR \<and>
      endpoint_direction (bEndpointAddress ep) \<noteq> ENDPOINT_IN) \<and>
   ((\<exists>i \<in> set cfg. \<exists>e \<in> set (endpoints i).
       endpoint_direction (bEndpointAddress e) = ENDPOINT_OUT \<and>
       endpoint_type (bmAttributes e) = ENDPOINT_TYPE_INTR) \<longrightarrow>
    (\<exists>ep_out. fst (resolve_endpoint cfg) = Some ep_out))"
proof (rule conjI; rule impI)
  assume "fst (resolve_endpoint cfg) = Some ep"
  with resolve_endpoint_cases [of cfg]
  show "endpoint_direction (bEndpointAddress ep) = ENDPOINT_OUT \<and>
      endpoint_type (bmAttributes ep) = ENDPOINT_TYPE_INTR \<and>
      endpoint_direction (bEndpointAddress ep) \<noteq> ENDPOINT_IN"
    by (auto simp: interrupt_out_def ENDPOINT_OUT_def ENDPOINT_IN_def)
next
  assume "\<exists>i \<in> set cfg. \<exists>e \<in> set (endpoints i).
       endpoint_direction (bEndpointAddress e) = ENDPOINT_OUT \<and>
       endpoint_type (bmAttributes e) = ENDPOINT_TYPE_INTR"
  then have "\<not> (\<forall>i \<in> set cfg. \<forall>e \<in> set (endpoints i). \<not> interrupt_out e)"
    by (simp add: interrupt_out_def)
  then have "fst (resolve_endpoint cfg) \<noteq> None"
    by (simp only: resolve_endpoint_None_iff not_False_eq_True)
  then show "\<exists>ep_out. fst (resolve_endpoint cfg) = Some ep_out"
    by auto
qed

text \<open>
  On the simulated device with an interrupt-IN endpoint followed by an interrupt-OUT
  endpoint, the OUT one is selected and the IN one is not.
\<close>

theorem resolved_endpoint_is_interrupt_out_witness:
  "fst (resolve_endpoint cfg_in_out) = Some ep_intr_out \<and>
   endpoint_direction (bEndpointAddress ep_intr_out) = ENDPOINT_OUT \<and>
   endpoint_type (bmAttributes ep_intr_out) = ENDPOINT_TYPE_INTR \<and>
   endpoint_direction (bEndpointAddress ep_intr_out) \<noteq> ENDPOINT_IN \<and>
   fst (resolve_endpoint cfg_in_out) \<noteq> Some ep_intr_in \<and>
   endpoint_direction (bEndpointAddress ep_intr_in) = ENDPOINT_IN \<and>
   endpoint_type (bmAttributes ep_intr_in) = ENDPOINT_TYPE_INTR"
proof -
  have sel: "fst (resolve_endpoint cfg_in_out) = Some ep_intr_out"
    by (simp add: script_defs sim_defs)
  have "ep_intr_out \<noteq> ep_intr_in"
    by (simp add: sim_defs)
  moreover have "endpoint_direction (bEndpointAddress ep_intr_in) = ENDPOINT_IN"
    by (simp add: script_defs sim_defs)
  moreover have "endpoint_type (bmAttributes ep_intr_in) = ENDPOINT_TYPE_INTR"
    by (simp add: script_defs sim_defs)
  ultimately show ?thesis
    using sel resolved_endpoint_is_interrupt_out [of cfg_in_out ep_intr_out] by auto
qed

subsection \<open>C3: no interrupt-OUT endpoint is a fatal error\<close>

text \<open>
  C3: the scan selects nothing exactly when no endpoint of the configuration is
  interrupt-OUT; a run ends with the exception \<^verbatim>\<open>Interrupt OUT endpoint not found\<close> exactly
  when the receiver is found, its configuration is activated and none of its endpoints is
  interrupt-OUT; and such a run has made the three calls up to reading the active
  configuration only: no interface is claimed and nothing is written.
\<close>

theorem endpoint_not_found_iff:
  "(fst (resolve_endpoint cfg) = None \<longleftrightarrow>
      (\<forall>i \<in> set cfg. \<forall>ep \<in> set (endpoints i). \<not> interrupt_out ep)) \<and>
   (result w = Raised (Exception ''Interrupt OUT endpoint not found'') \<longleftrightarrow>
      (\<exists>dev. usb_core_find (attached w) VID PID = Some dev \<and>
         \<not> fault w [Find VID PID] SetConfiguration \<and>
         (\<forall>i \<in> set (configuration dev). \<forall>ep \<in> set (endpoints i). \<not> interrupt_out ep))) \<and>
   (result w = Raised (Exception ''Interrupt OUT endpoint not found'') \<longrightarrow>
      calls w = [Find VID PID, SetConfiguration, GetActiveConfiguration] \<and>
      transfers (calls w) = [])"
proof (intro conjI)
  show "fst (resolve_endpoint cfg) = None \<longleftrightarrow>
      (\<forall>i \<in> set cfg. \<forall>ep \<in> set (endpoints i). \<not> interrupt_out ep)"
    by (rule resolve_endpoint_None_iff)
next
  show "result w = Raised (Exception ''Interrupt OUT endpoint not found'') \<longleftrightarrow>
      (\<exists>dev. usb_core_find (attached w) VID PID = Some dev \<and>
         \<not> fault w [Find VID PID] SetConfiguration \<and>
         (\<forall>i \<in> set (configuration dev). \<forall>ep \<in> set (endpoints i). \<not> interrupt_out ep))"
    by (rule result_endpoint_not_found_iff)
next
  show "result w = Raised (Exception ''Interrupt OUT endpoint not found'') \<longrightarrow>
      calls w = [Find VID PID, SetConfiguration, GetActiveConfiguration] \<and>
      transfers (calls w) = []"
    using main_paths [of w] by (auto simp: result_def calls_def transfers_def)
qed

text \<open>The simulated device with a bulk-OUT and a control endpoint only.\<close>

theorem endpoint_not_found_witness:
  "fst (resolve_endpoint cfg_bulk_ctrl) = None \<and>
   result (healthy [receiver cfg_bulk_ctrl]) =
     Raised (Exception ''Interrupt OUT endpoint not found'') \<and>
   calls (healthy [receiver cfg_bulk_ctrl]) =
     [Find VID PID, SetConfiguration, GetActiveConfiguration] \<and>
   transfers (calls (healthy [receiver cfg_bulk_ctrl])) = [] \<and>
   endpoint_direction (bEndpointAddress ep_bulk_out) = ENDPOINT_OUT \<and>
   endpoint_type (bmAttributes ep_bulk_out) = ENDPOINT_TYPE_BULK \<and>
   endpoint_type (bmAttributes ep_ctrl) = ENDPOINT_TYPE_CTRL"
proof -
  let ?w = "healthy [receiver cfg_bulk_ctrl]"
  have kinds:
    "endpoint_direction (bEndpointAddress ep_bulk_out) = ENDPOINT_OUT"
    "endpoint_type (bmAttributes ep_bulk_out) = ENDPOINT_TYPE_BULK"
    "endpoint_type (bmAttributes ep_ctrl) = ENDPOINT_TYPE_CTRL"
    by (simp_all add: script_defs sim_defs ENDPOINT_TYPE_BULK_def ENDPOINT_TYPE_CTRL_def)
  have none: "\<forall>i \<in> set cfg_bulk_ctrl. \<forall>ep \<in> set (endpoints i). \<not> interrupt_out ep"
    by (simp add: sim_defs interrupt_out_def script_defs)
  have found: "usb_core_find (attached ?w) VID PID = Some (receiver cfg_bulk_ctrl)"
    by (simp add: healthy_def receiver_def VID_def PID_def)
  have ok: "\<not> fault ?w [Find VID PID] SetConfiguration"
    by (simp add: healthy_def)
  have cfg: "configuration (receiver cfg_bulk_ctrl) = cfg_bulk_ctrl"
    by (simp add: receiver_def)
  from none found ok cfg kinds endpoint_not_found_iff [of cfg_bulk_ctrl ?w]
  show ?thesis by auto
qed

subsection \<open>C4: no receiver is a fatal error\<close>

text \<open>
  C4: a run ends with the exception \<^verbatim>\<open>Receiver not found\<close> exactly when no attached device
  has vendor id 0x045E and product id 0x0719, and such a run has made the call that looks
  for the device and no other: it is not a run that completes without doing anything.
\<close>

theorem receiver_not_found_iff:
  "(result w = Raised (Exception ''Receiver not found'') \<longleftrightarrow>
      \<not> (\<exists>d \<in> set (attached w). idVendor d = 0x045E \<and> idProduct d = 0x0719)) \<and>
   (result w = Raised (Exception ''Receiver not found'') \<longrightarrow> calls w = [Find 0x045E 0x0719])"
proof -
  have "result w = Raised (Exception ''Receiver not found'') \<longleftrightarrow>
      \<not> (\<exists>d \<in> set (attached w). idVendor d = 0x045E \<and> idProduct d = 0x0719)"
    by (simp add: result_receiver_not_found_iff usb_core_find_None_iff VID_def PID_def)
  moreover have "calls w = [Find 0x045E 0x0719]"
    if "result w = Raised (Exception ''Receiver not found'')"
    using that by (simp add: result_receiver_not_found_iff calls_def main_not_found VID_def PID_def)
  ultimately show ?thesis by blast
qed

text \<open>A stack with a keyboard only, and one with a keyboard and the receiver.\<close>

theorem receiver_not_found_witness:
  "result (healthy [keyboard]) = Raised (Exception ''Receiver not found'') \<and>
   calls (healthy [keyboard]) = [Find 0x045E 0x0719] \<and>
   result (healthy [keyboard, receiver cfg_in_out]) \<noteq> Raised (Exception ''Receiver not found'')"
proof -
  have absent: "\<not> (\<exists>d \<in> set (attached (healthy [keyboard])).
      idVendor d = 0x045E \<and> idProduct d = 0x0719)"
    by (simp add: healthy_def keyboard_def)
  have present: "\<exists>d \<in> set (attached (healthy [keyboard, receiver cfg_in_out])).
      idVendor d = 0x045E \<and> idProduct d = 0x0719"
    by (simp add: healthy_def receiver_def)
  from absent present receiver_not_found_iff [of "healthy [keyboard]"]
    receiver_not_found_iff [of "healthy [keyboard, receiver cfg_in_out]"]
  show ?thesis by blast
qed

subsection \<open>C5: the two packets\<close>

text \<open>
  C5: a run that completes has made exactly two transfers, both to the address of the
  endpoint the scan selected on the receiver found, each of 8 bytes: the first is
  \<open>[0, 8, 255, 255, 0, 0, 0, 0]\<close> and the second is \<open>[0, 8, 0, 0, 0, 0, 0, 0]\<close>.
\<close>

theorem successful_run_transfers:
  "result w = Completed \<Longrightarrow>
   \<exists>dev ep intf. usb_core_find (attached w) VID PID = Some dev \<and>
     resolve_endpoint (configuration dev) = (Some ep, Some intf) \<and>
     transfers (calls w) =
       [(bEndpointAddress ep, [0, 8, 255, 255, 0, 0, 0, 0]),
        (bEndpointAddress ep, [0, 8, 0, 0, 0, 0, 0, 0])] \<and>
     length (transfers (calls w)) = 2 \<and>
     map (length \<circ> snd) (transfers (calls w)) = [8, 8]"
  using main_paths [of w]
  by (auto simp: result_def calls_def transfers_def activation_def deactivation_def)

text \<open>The receiver behind a keyboard, on a stack without faults.\<close>

theorem successful_run_transfers_witness:
  "result (healthy [keyboard, receiver cfg_in_out]) = Completed \<and>
   transfers (calls (healthy [keyboard, receiver cfg_in_out])) =
     [(0x01, [0, 8, 255, 255, 0, 0, 0, 0]), (0x01, [0, 8, 0, 0, 0, 0, 0, 0])]"
proof -
  let ?w = "healthy [keyboard, receiver cfg_in_out]"
  have fin: "result ?w = Completed"
    by (simp add: script_defs sim_defs)
  have "usb_core_find (attached ?w) VID PID = Some (receiver cfg_in_out)"
    by (simp add: script_defs sim_defs)
  moreover have "resolve_endpoint (configuration (receiver cfg_in_out)) =
      (Some ep_intr_out, Some \<lparr>bInterfaceNumber = 0, endpoints = [ep_intr_in, ep_intr_out]\<rparr>)"
    by (simp add: script_defs sim_defs)
  moreover have "bEndpointAddress ep_intr_out = 0x01"
    by (simp add: ep_intr_out_def)
  ultimately show ?thesis
    using fin successful_run_transfers [OF fin] by auto
qed

subsection \<open>C6: the order of the calls\<close>

text \<open>
  C6: a run that completes has made these calls and no other, in this order: find the
  device, activate its configuration, read the active configuration (which the scan
  walks), claim the interface the scan selected, write the activation packet to the
  endpoint the scan selected, sleep for 2 seconds, write the deactivation packet to the
  same endpoint, print \<^verbatim>\<open>Done\<close>.
\<close>

theorem successful_run_calls:
  "result w = Completed \<Longrightarrow>
   \<exists>dev ep intf. usb_core_find (attached w) VID PID = Some dev \<and>
     resolve_endpoint (configuration dev) = (Some ep, Some intf) \<and>
     calls w =
       [Find 0x045E 0x0719, SetConfiguration, GetActiveConfiguration,
        ClaimInterface (bInterfaceNumber intf),
        Write (bEndpointAddress ep) activation, Sleep 2,
        Write (bEndpointAddress ep) deactivation, Print ''Done'']"
  using main_paths [of w]
  by (auto simp: result_def calls_def VID_def PID_def)

text \<open>The receiver with two qualifying interfaces, on a stack without faults.\<close>

theorem successful_run_calls_witness:
  "result (healthy [receiver cfg_two_interfaces]) = Completed \<and>
   calls (healthy [receiver cfg_two_interfaces]) =
     [Find 0x045E 0x0719, SetConfiguration, GetActiveConfiguration,
      ClaimInterface 1, Write 0x02 activation, Sleep 2, Write 0x02 deactivation,
      Print ''Done'']"
proof -
  let ?w = "healthy [receiver cfg_two_interfaces]"
  have fin: "result ?w = Completed"
    by (simp add: script_defs sim_defs)
  have "usb_core_find (attached ?w) VID PID = Some (receiver cfg_two_interfaces)"
    by (simp add: script_defs sim_defs)
  moreover have "resolve_endpoint (configuration (receiver cfg_two_interfaces)) =
      (Some ep_intr_out2, Some \<lparr>bInterfaceNumber = 1, endpoints = [ep_intr_out2]\<rparr>)"
    by (simp add: script_defs sim_defs)
  moreover have "bEndpointAddress ep_intr_out2 = 0x02"
    by (simp add: ep_intr_out2_def)
  ultimately show ?thesis
    using fin successful_run_calls [OF fin] by auto
qed

subsection \<open>C7: the script never releases the interface\<close>




subsection \<open>C8: the claimed interface owns the endpoint written to\<close>

text \<open>
  C8: one pass of the inner loop over an interface either leaves both variables as they
  were or sets both, the endpoint to one of that interface and the interface to that
  interface. So the outer loop keeps the two variables paired, the scan returns them
  paired, and in every run the interface number claimed and the endpoint address written
  to are those of the interface and the endpoint the scan selected, the endpoint being
  one of that interface.
\<close>

theorem claimed_interface_owns_endpoint:
  "(inner_loop i (endpoints i) sel = sel \<or>
      (\<exists>ep \<in> set (endpoints i). inner_loop i (endpoints i) sel = (Some ep, Some i))) \<and>
   (paired sel \<longrightarrow> paired (outer_loop cfg sel)) \<and>
   paired (resolve_endpoint cfg) \<and>
   (ClaimInterface n \<in> set (calls w) \<and> Write a d \<in> set (calls w) \<longrightarrow>
      (\<exists>dev intf ep_out. usb_core_find (attached w) VID PID = Some dev \<and>
         resolve_endpoint (configuration dev) = (Some ep_out, Some intf) \<and>
         intf \<in> set (configuration dev) \<and> ep_out \<in> set (endpoints intf) \<and>
         n = bInterfaceNumber intf \<and> a = bEndpointAddress ep_out))"
proof (intro conjI)
  show "inner_loop i (endpoints i) sel = sel \<or>
      (\<exists>ep \<in> set (endpoints i). inner_loop i (endpoints i) sel = (Some ep, Some i))"
    using inner_loop_from [of i sel] by blast
next
  show "paired sel \<longrightarrow> paired (outer_loop cfg sel)"
    by (simp add: outer_loop_paired)
next
  show "paired (resolve_endpoint cfg)"
    by (simp add: resolve_endpoint_def outer_loop_paired)
next
  show "ClaimInterface n \<in> set (calls w) \<and> Write a d \<in> set (calls w) \<longrightarrow>
      (\<exists>dev intf ep_out. usb_core_find (attached w) VID PID = Some dev \<and>
         resolve_endpoint (configuration dev) = (Some ep_out, Some intf) \<and>
         intf \<in> set (configuration dev) \<and> ep_out \<in> set (endpoints intf) \<and>
         n = bInterfaceNumber intf \<and> a = bEndpointAddress ep_out)"
    using main_paths [of w] by (auto simp: calls_def)
qed

text \<open>The receiver with two qualifying interfaces: interface 1 is claimed, its endpoint 0x02 written.\<close>

theorem claimed_interface_owns_endpoint_witness:
  "paired (resolve_endpoint cfg_two_interfaces) \<and>
   ClaimInterface 1 \<in> set (calls (healthy [receiver cfg_two_interfaces])) \<and>
   Write 0x02 activation \<in> set (calls (healthy [receiver cfg_two_interfaces])) \<and>
   (\<exists>intf ep_out.
      resolve_endpoint (configuration (receiver cfg_two_interfaces)) = (Some ep_out, Some intf) \<and>
      intf \<in> set (configuration (receiver cfg_two_interfaces)) \<and>
      ep_out \<in> set (endpoints intf) \<and>
      bInterfaceNumber intf = 1 \<and> bEndpointAddress ep_out = 0x02)"
proof -
  let ?w = "healthy [receiver cfg_two_interfaces]"
  have c: "ClaimInterface 1 \<in> set (calls ?w)"
    by (simp add: script_defs sim_defs)
  have t: "Write 0x02 activation \<in> set (calls ?w)"
    by (simp add: script_defs sim_defs)
  have "usb_core_find (attached ?w) VID PID = Some (receiver cfg_two_interfaces)"
    by (simp add: script_defs sim_defs)
  with c t claimed_interface_owns_endpoint [of _ _ cfg_two_interfaces 1 ?w "0x02" activation]
  show ?thesis by auto
qed

subsection \<open>C9: the last qualifying interface wins\<close>

text \<open>
  C9: when at least one interface has a qualifying endpoint, the scan selects the last
  such interface in configuration order, and of that interface the first qualifying
  endpoint in descriptor order: later interfaces overwrite what earlier ones set.
\<close>

theorem resolver_selects_last_interface:
  "filter has_interrupt_out cfg \<noteq> [] \<Longrightarrow>
   resolve_endpoint cfg =
     (List.find interrupt_out (endpoints (last (filter has_interrupt_out cfg))),
      Some (last (filter has_interrupt_out cfg))) \<and>
   fst (resolve_endpoint cfg) \<noteq> None"
proof -
  assume ne: "filter has_interrupt_out cfg \<noteq> []"
  then obtain i rest where r: "rev (filter has_interrupt_out cfg) = i # rest"
    by (cases "rev (filter has_interrupt_out cfg)") simp_all
  then have "hd (rev (filter has_interrupt_out cfg)) = i" by simp
  with ne have i: "i = last (filter has_interrupt_out cfg)"
    by (simp add: hd_rev)
  from ne have "last (filter has_interrupt_out cfg) \<in> set (filter has_interrupt_out cfg)"
    by (rule last_in_set)
  with i have "has_interrupt_out i" by simp
  then have found: "List.find interrupt_out (endpoints i) \<noteq> None"
    by (simp add: has_interrupt_out_def)
  have "resolve_endpoint cfg = (List.find interrupt_out (endpoints i), Some i)"
    by (simp add: resolve_endpoint_def outer_loop_last r)
  with found show ?thesis
    unfolding i [symmetric] by simp
qed

text \<open>Both interfaces of the simulated device qualify; the second is selected.\<close>

theorem resolver_selects_last_interface_witness:
  "filter has_interrupt_out cfg_two_interfaces \<noteq> [] \<and>
   length (filter has_interrupt_out cfg_two_interfaces) = 2 \<and>
   resolve_endpoint cfg_two_interfaces =
     (Some ep_intr_out2, Some \<lparr>bInterfaceNumber = 1, endpoints = [ep_intr_out2]\<rparr>)"
proof -
  have f: "filter has_interrupt_out cfg_two_interfaces = cfg_two_interfaces"
    by (simp add: sim_defs has_interrupt_out_def interrupt_out_def script_defs)
  then have ne: "filter has_interrupt_out cfg_two_interfaces \<noteq> []"
    by (simp add: cfg_two_interfaces_def)
  have "List.find interrupt_out [ep_intr_out2] = Some ep_intr_out2"
    by (simp add: sim_defs interrupt_out_def script_defs)
  with f ne resolver_selects_last_interface [OF ne] show ?thesis
    by (simp add: cfg_two_interfaces_def)
qed

subsection \<open>C10: determinism\<close>

text \<open>
  C10 as stated says that the attached devices and their configurations decide the run.
  They do not: with the same receiver attached, a run on a stack without faults
  completes, and a run on a stack whose transfers fail ends with the library's exception
  after the first transfer.
\<close>

theorem same_devices_different_runs:
  "attached (healthy [receiver cfg_in_out]) = attached (unplugged [receiver cfg_in_out]) \<and>
   main (healthy [receiver cfg_in_out]) =
     ([Find 0x045E 0x0719, SetConfiguration, GetActiveConfiguration, ClaimInterface 0,
       Write 0x01 [0, 8, 255, 255, 0, 0, 0, 0], Sleep 2,
       Write 0x01 [0, 8, 0, 0, 0, 0, 0, 0], Print ''Done''], Completed) \<and>
   main (unplugged [receiver cfg_in_out]) =
     ([Find 0x045E 0x0719, SetConfiguration, GetActiveConfiguration, ClaimInterface 0,
       Write 0x01 [0, 8, 255, 255, 0, 0, 0, 0]], Raised USBError) \<and>
   main (healthy [receiver cfg_in_out]) \<noteq> main (unplugged [receiver cfg_in_out])"
  by (simp add: script_defs sim_defs)

text \<open>
  C10, amended: two runs on stacks with the same attached devices, neither of them ended
  by an exception of a device operation of the library, make the same calls (so the same
  interface number is claimed and the same transfers are made, in the same order, with
  the same endpoint addresses and payloads) and end the same way: with the same one of
  the two exceptions of the script, or by completing.
\<close>

theorem run_determined_by_devices:
  "attached w = attached w' \<Longrightarrow>
   result w \<noteq> Raised USBError \<Longrightarrow> result w' \<noteq> Raised USBError \<Longrightarrow>
   calls w = calls w' \<and> result w = result w' \<and>
   transfers (calls w) = transfers (calls w') \<and>
   (result w = Raised (Exception ''Receiver not found'') \<or>
    result w = Raised (Exception ''Interrupt OUT endpoint not found'') \<or>
    result w = Completed)"
proof -
  assume a: "attached w = attached w'"
    and r: "result w \<noteq> Raised USBError" "result w' \<noteq> Raised USBError"
  from a r main_paths [of w] main_paths [of w'] have "main w = main w'"
    by (auto simp: result_def)
  then have "calls w = calls w'" "result w = result w'"
    by (simp_all add: calls_def result_def)
  moreover from r(1) main_paths [of w]
  have "result w = Raised (Exception ''Receiver not found'') \<or>
    result w = Raised (Exception ''Interrupt OUT endpoint not found'') \<or>
    result w = Completed"
    by (auto simp: result_def)
  ultimately show ?thesis by simp
qed

text \<open>
  Two stacks with the receiver attached and different faults, neither of which the run
  meets.
\<close>

theorem run_determined_by_devices_witness:
  "calls (healthy [receiver cfg_in_out]) =
     calls \<lparr>attached = [receiver cfg_in_out], fault = (\<lambda>t e. e = SetConfiguration \<and> t = [])\<rparr> \<and>
   result \<lparr>attached = [receiver cfg_in_out], fault = (\<lambda>t e. e = SetConfiguration \<and> t = [])\<rparr> =
     Completed \<and>
   result (healthy [receiver cfg_in_out]) = Completed"
proof -
  let ?w = "healthy [receiver cfg_in_out]"
  let ?w' = "\<lparr>attached = [receiver cfg_in_out], fault = (\<lambda>t e. e = SetConfiguration \<and> t = [])\<rparr>"
  have a: "attached ?w = attached ?w'" by (simp add: healthy_def)
  have r: "result ?w = Completed" by (simp add: script_defs sim_defs)
  have r': "result ?w' = Completed" by (simp add: script_defs sim_defs)
  from r have n: "result ?w \<noteq> Raised USBError" by simp
  from r' have n': "result ?w' \<noteq> Raised USBError" by simp
  from run_determined_by_devices [OF a n n'] r r' show ?thesis by simp
qed

end
